theory Spec2Isabelle
  imports Complex_Main "HOL-Library.Word"
begin

section \<open>Sample values\<close>

text \<open>
  An element of a \<^verbatim>\<open>Float32Array\<close>, read by JavaScript as a number: not-a-number, the
  two infinities, negative zero, or a finite value. \<open>Fin 0\<close> is positive zero. The finite
  values of the model are all the rationals, a superset of the finite binary32 values; for
  a binary32 operand the two products of \<^verbatim>\<open>encode\<close> (by \<open>0x8000\<close> and by \<open>0x7FFF\<close>) are
  exact in binary64 (a 24-bit significand times an integer below \<open>2^16\<close>), so the exact
  rational arithmetic below is what the program computes.
\<close>

datatype f32 = NaN | PosInf | NegInf | NegZero | Fin rat

fun is_fin :: "f32 \<Rightarrow> bool" where
  "is_fin (Fin q) = True"
| "is_fin NegZero = True"
| "is_fin x = False"

fun fval :: "f32 \<Rightarrow> rat" where
  "fval (Fin q) = q"
| "fval x = 0"

text \<open>The sign bit, for the values that are not NaN.\<close>

fun neg :: "f32 \<Rightarrow> bool" where
  "neg NegInf = True"
| "neg NegZero = True"
| "neg (Fin q) = (q < 0)"
| "neg x = False"

text \<open>The operator \<^verbatim>\<open><\<close> on numbers: false when an operand is NaN; the two zeros are equal.\<close>

fun js_lt :: "f32 \<Rightarrow> f32 \<Rightarrow> bool" where
  "js_lt NaN y = False"
| "js_lt x NaN = False"
| "js_lt PosInf y = False"
| "js_lt x NegInf = False"
| "js_lt NegInf y = True"
| "js_lt x PosInf = True"
| "js_lt x y = (fval x < fval y)"

text \<open>\<^verbatim>\<open>a <= b\<close> on numbers, used to state that a value lies in an interval.\<close>

definition js_le :: "f32 \<Rightarrow> f32 \<Rightarrow> bool" where
  "js_le a b = (a \<noteq> NaN \<and> b \<noteq> NaN \<and> \<not> js_lt b a)"

text \<open>
  \<^verbatim>\<open>Math.min\<close> and \<^verbatim>\<open>Math.max\<close> of two numbers: NaN when an operand is NaN; negative
  zero is below positive zero.
\<close>

definition Math_min :: "f32 \<Rightarrow> f32 \<Rightarrow> f32" where
  "Math_min a b =
     (if a = NaN \<or> b = NaN then NaN
      else if js_lt a b then a
      else if js_lt b a then b
      else if a = NegZero \<or> b = NegZero then NegZero
      else a)"

definition Math_max :: "f32 \<Rightarrow> f32 \<Rightarrow> f32" where
  "Math_max a b =
     (if a = NaN \<or> b = NaN then NaN
      else if js_lt a b then b
      else if js_lt b a then a
      else if a = NegZero \<and> b = NegZero then NegZero
      else if a = NegZero then b
      else a)"

text \<open>The product of two numbers (exact on the finite values, see above).\<close>

definition js_times :: "f32 \<Rightarrow> f32 \<Rightarrow> f32" where
  "js_times a b =
     (if a = NaN \<or> b = NaN then NaN
      else if \<not> is_fin a \<and> is_fin b \<and> fval b = 0 then NaN
      else if is_fin a \<and> fval a = 0 \<and> \<not> is_fin b then NaN
      else if \<not> is_fin a \<or> \<not> is_fin b then (if neg a = neg b then PosInf else NegInf)
      else if fval a * fval b = 0 then (if neg a = neg b then Fin 0 else NegZero)
      else Fin (fval a * fval b))"

text \<open>\<^verbatim>\<open>Math.abs\<close> and \<^verbatim>\<open>isNaN\<close>.\<close>

fun Math_abs :: "f32 \<Rightarrow> f32" where
  "Math_abs NaN = NaN"
| "Math_abs PosInf = PosInf"
| "Math_abs NegInf = PosInf"
| "Math_abs NegZero = Fin 0"
| "Math_abs (Fin q) = Fin \<bar>q\<bar>"

definition isNaN :: "f32 \<Rightarrow> bool" where
  "isNaN x = (x = NaN)"

text \<open>Strict equality of numbers: NaN equals nothing, the two zeros are equal.\<close>

definition js_strict_eq :: "f32 \<Rightarrow> f32 \<Rightarrow> bool" where
  "js_strict_eq a b =
     (a \<noteq> NaN \<and> b \<noteq> NaN \<and> (a = b \<or> (is_fin a \<and> is_fin b \<and> fval a = fval b)))"

section \<open>The PCM16 encoder\<close>

text \<open>Rounding a rational towards zero, the first step of the integer conversion.\<close>

definition truncate_rat :: "rat \<Rightarrow> int" where
  "truncate_rat q = (if q < 0 then \<lceil>q\<rceil> else \<lfloor>q\<rfloor>)"

text \<open>
  Storing a number into an \<^verbatim>\<open>Int16Array\<close> element (the conversion ToInt16): NaN, the
  infinities and the zeros become 0; a finite value is truncated towards zero and reduced
  modulo \<open>2^16\<close>.
\<close>

fun ToInt16 :: "f32 \<Rightarrow> 16 word" where
  "ToInt16 (Fin q) = word_of_int (truncate_rat q)"
| "ToInt16 x = 0"

text \<open>Line 9 of the encoder: \<^verbatim>\<open>Math.max(-1.0, Math.min(1.0, float32Array[i]))\<close>.\<close>

definition clamp :: "f32 \<Rightarrow> f32" where
  "clamp x = Math_max (Fin (- 1)) (Math_min (Fin 1) x)"

text \<open>
  Lines 14 to 16: \<^verbatim>\<open>clamped < 0 ? clamped * 0x8000 : clamped * 0x7FFF\<close>, the number that is
  then stored into the \<^verbatim>\<open>Int16Array\<close>.
\<close>

definition scale :: "f32 \<Rightarrow> f32" where
  "scale clamped =
     (if js_lt clamped (Fin 0) then js_times clamped (Fin 32768)
      else js_times clamped (Fin 32767))"

definition encode_sample :: "f32 \<Rightarrow> 16 word" where
  "encode_sample x = ToInt16 (scale (clamp x))"

text \<open>
  The loop of \<^verbatim>\<open>encode\<close>: \<open>out\<close> is the \<^verbatim>\<open>Int16Array\<close>, written at index \<open>i\<close> for
  \<open>i\<close> from 0 up to the length of the input.
\<close>

function encode_loop :: "f32 list \<Rightarrow> nat \<Rightarrow> 16 word list \<Rightarrow> 16 word list" where
  "encode_loop float32Array i pcm16Array =
     (if i < length float32Array
      then encode_loop float32Array (Suc i)
             (pcm16Array[i := ToInt16 (scale (clamp (float32Array ! i)))])
      else pcm16Array)"
  by pat_completeness auto
termination
  by (relation "measure (\<lambda>(xs, i, out). length xs - i)") auto

declare encode_loop.simps [simp del]

text \<open>
  \<^verbatim>\<open>encode\<close>: a fresh \<^verbatim>\<open>Int16Array\<close> of the input's length (all zero), filled by the loop.
  The result is the array's buffer, seen here through its 16-bit elements.
\<close>

definition encode :: "f32 list \<Rightarrow> 16 word list" where
  "encode float32Array =
     encode_loop float32Array 0 (replicate (length float32Array) 0)"

section \<open>Effects\<close>

text \<open>
  The frames the client writes to the socket; \<^verbatim>\<open>JSON.stringify\<close> of the three object
  literals of the source, told apart by their \<^verbatim>\<open>type\<close> field. The append frame carries
  its \<^verbatim>\<open>audio\<close> field.
\<close>

datatype client_msg =
    SessionUpdate
  | InputAudioBufferAppend string
  | InputAudioBufferCommit

text \<open>
  What a method of the client does to the world outside its own fields, in the order it
  does it: console output (the fixed label of the call), the four callbacks of
  \<^verbatim>\<open>STTCallbacks\<close>, a frame handed to the network by \<^verbatim>\<open>ws.send\<close>, \<^verbatim>\<open>ws.close()\<close>,
  \<^verbatim>\<open>new WebSocket(url)\<close> and \<^verbatim>\<open>setTimeout\<close> with its delay.
\<close>

datatype effect =
    ConsoleLog string
  | ConsoleWarn string
  | ConsoleError string
  | OnPartialTranscript string
  | OnFinalTranscript string
  | OnError string
  | OnConnectionStateChange bool
  | WsSend client_msg
  | WsClose
  | NewWebSocket string
  | SetTimeout nat

text \<open>
  A thrown value. Every value thrown in this code is an instance of \<^verbatim>\<open>Error\<close>:
  \<open>Error\<close> is \<^verbatim>\<open>new Error(message)\<close> of the source, \<open>PlatformError\<close> is an error the
  platform raises (a TypeError, a SyntaxError of the JSON parser, a DOMException), with
  the message the engine gives it.
\<close>

datatype exn = Error string | PlatformError string

fun message :: "exn \<Rightarrow> string" where
  "message (Error m) = m"
| "message (PlatformError m) = m"

section \<open>Validation\<close>

text \<open>
  The value passed as \<^verbatim>\<open>audioData\<close>: a \<^verbatim>\<open>Float32Array\<close> with its elements, or any other
  value (the parameter is typed, the check of line 25 is made at run time).
\<close>

datatype audio_input = Float32Array "f32 list" | NotFloat32Array

text \<open>The literal \<^verbatim>\<open>0.0001\<close>: the binary64 value nearest to it.\<close>

definition level_threshold :: rat where
  "level_threshold = 7378697629483821 / 73786976294838206464"

text \<open>
  Lines 31 to 33: \<^verbatim>\<open>audioData.some(sample => !isNaN(sample) && sample !== 0 &&
  Math.abs(sample) > 0.0001)\<close>.
\<close>

definition hasValidSamples :: "f32 list \<Rightarrow> bool" where
  "hasValidSamples audioData =
     list_ex (\<lambda>sample. \<not> isNaN sample \<and> \<not> js_strict_eq sample (Fin 0) \<and>
                js_lt (Fin level_threshold) (Math_abs sample)) audioData"

fun validateAudioData :: "audio_input \<Rightarrow> bool \<times> effect list" where
  "validateAudioData NotFloat32Array =
     (False, [ConsoleError ''Audio data must be Float32Array''])"
| "validateAudioData (Float32Array audioData) =
     (True, if \<not> hasValidSamples audioData
            then [ConsoleWarn ''Audio data appears to be silent or invalid'']
            else [])"

section \<open>Base64 of the encoded buffer\<close>

text \<open>
  \<^verbatim>\<open>new Uint8Array(buffer)\<close> over the buffer of an \<^verbatim>\<open>Int16Array\<close>: two bytes for each
  element, the low byte first (typed arrays use the byte order of the host, which is
  little-endian on the platforms the page runs on).
\<close>

fun Uint8Array :: "16 word list \<Rightarrow> 8 word list" where
  "Uint8Array [] = []"
| "Uint8Array (w # ws) = ucast w # ucast (drop_bit 8 w) # Uint8Array ws"

definition base64_alphabet :: string where
  "base64_alphabet =
     ''ABCDEFGHIJKLMNOPQRSTUVWXYZabcdefghijklmnopqrstuvwxyz0123456789+/''"

definition b64 :: "nat \<Rightarrow> char" where
  "b64 n = base64_alphabet ! (n mod 64)"

text \<open>\<^verbatim>\<open>btoa\<close> of a binary string, each character a byte.\<close>

fun btoa :: "string \<Rightarrow> string" where
  "btoa [] = []"
| "btoa [a] =
     (let x = of_char a :: nat
      in [b64 (x div 4), b64 (x mod 4 * 16), CHR ''='', CHR ''=''])"
| "btoa [a, b] =
     (let x = of_char a :: nat; y = of_char b :: nat
      in [b64 (x div 4), b64 (x mod 4 * 16 + y div 16), b64 (y mod 16 * 4), CHR ''=''])"
| "btoa (a # b # c # rest) =
     (let x = of_char a :: nat; y = of_char b :: nat; z = of_char c :: nat
      in [b64 (x div 4), b64 (x mod 4 * 16 + y div 16),
          b64 (y mod 16 * 4 + z div 64), b64 (z mod 64)] @ btoa rest)"

text \<open>
  The loop of \<^verbatim>\<open>arrayBufferToBase64\<close>: \<^verbatim>\<open>binary += String.fromCharCode(bytes[i])\<close> for
  \<open>i\<close> from 0 up to the number of bytes.
\<close>

function binary_loop :: "8 word list \<Rightarrow> nat \<Rightarrow> string \<Rightarrow> string" where
  "binary_loop bytes i binary =
     (if i < length bytes
      then binary_loop bytes (Suc i) (binary @ [char_of (unat (bytes ! i))])
      else binary)"
  by pat_completeness auto
termination
  by (relation "measure (\<lambda>(bytes, i, binary). length bytes - i)") auto

declare binary_loop.simps [simp del]

definition arrayBufferToBase64 :: "16 word list \<Rightarrow> string" where
  "arrayBufferToBase64 buffer = btoa (binary_loop (Uint8Array buffer) 0 [])"

section \<open>JSON values and the JavaScript operators used on them\<close>

text \<open>
  What \<^verbatim>\<open>JSON.parse\<close> and \<^verbatim>\<open>response.json()\<close> return. Numbers are the integers (the
  messages of the protocol carry no other number that this code reads). An object is the
  list of its fields in the order in which the object enumerates them; where a list
  repeats a key, as a JSON text may, reading the key gives its last value.
  A value of type \<open>json option\<close> is a JavaScript value that may be \<^verbatim>\<open>undefined\<close>
  (\<open>None\<close>).
\<close>

datatype json =
    JNull
  | JBool bool
  | JNum int
  | JStr string
  | JArr "json list"
  | JObj "(string \<times> json) list"

fun truthy :: "json option \<Rightarrow> bool" where
  "truthy None = False"
| "truthy (Some JNull) = False"
| "truthy (Some (JBool b)) = b"
| "truthy (Some (JNum n)) = (n \<noteq> 0)"
| "truthy (Some (JStr s)) = (s \<noteq> [])"
| "truthy (Some (JArr xs)) = True"
| "truthy (Some (JObj kvs)) = True"

text \<open>\<^verbatim>\<open>a || b\<close>\<close>

definition js_or :: "json option \<Rightarrow> json option \<Rightarrow> json option" where
  "js_or a b = (if truthy a then a else b)"

text \<open>
  \<^verbatim>\<open>v.name\<close>, for the names this code reads (\<^verbatim>\<open>type\<close>, \<^verbatim>\<open>transcript\<close>, \<^verbatim>\<open>delta\<close>,
  \<^verbatim>\<open>error\<close>, \<^verbatim>\<open>message\<close>, \<^verbatim>\<open>code\<close>, \<^verbatim>\<open>client_secret\<close>; no prototype has them): a
  TypeError on \<^verbatim>\<open>undefined\<close> and \<^verbatim>\<open>null\<close>, the field of an object, \<^verbatim>\<open>undefined\<close>
  otherwise.
\<close>

fun get_prop :: "json option \<Rightarrow> string \<Rightarrow> exn + json option" where
  "get_prop None name = Inl (PlatformError (''Cannot read properties of undefined (reading '' @ name @ '')''))"
| "get_prop (Some JNull) name = Inl (PlatformError (''Cannot read properties of null (reading '' @ name @ '')''))"
| "get_prop (Some (JObj kvs)) name = Inr (map_of (rev kvs) name)"
| "get_prop (Some v) name = Inr None"

text \<open>\<^verbatim>\<open>v?.name\<close>: \<^verbatim>\<open>undefined\<close> on \<^verbatim>\<open>undefined\<close> and \<^verbatim>\<open>null\<close>.\<close>

fun get_prop_opt :: "json option \<Rightarrow> string \<Rightarrow> json option" where
  "get_prop_opt (Some (JObj kvs)) name = map_of (rev kvs) name"
| "get_prop_opt v name = None"

text \<open>Decimal digits of a natural number and of an integer.\<close>

function show_nat :: "nat \<Rightarrow> string" where
  "show_nat n =
     (if n < 10 then [char_of (48 + n)]
      else show_nat (n div 10) @ [char_of (48 + n mod 10)])"
  by pat_completeness auto
termination
  by (relation "measure (\<lambda>n. n)") auto

declare show_nat.simps [simp del]

definition show_int :: "int \<Rightarrow> string" where
  "show_int k = (if k < 0 then CHR ''-'' # show_nat (nat (- k)) else show_nat (nat k))"

text \<open>\<^verbatim>\<open>Array.prototype.join\<close> with a separator, on strings.\<close>

fun join :: "string \<Rightarrow> string list \<Rightarrow> string" where
  "join sep [] = []"
| "join sep [x] = x"
| "join sep (x # y # ys) = x @ sep @ join sep (y # ys)"

text \<open>
  The conversion of a value to a string, as a template literal and \<^verbatim>\<open>+\<close> with a string
  make it: an array is its elements joined by commas, \<^verbatim>\<open>null\<close> and \<^verbatim>\<open>undefined\<close>
  elements empty; an object is \<^verbatim>\<open>[object Object]\<close>.
\<close>

fun js_to_string :: "json \<Rightarrow> string" where
  "js_to_string JNull = ''null''"
| "js_to_string (JBool b) = (if b then ''true'' else ''false'')"
| "js_to_string (JNum n) = show_int n"
| "js_to_string (JStr s) = s"
| "js_to_string (JArr xs) =
     join '','' (map (\<lambda>x. if x = JNull then [] else js_to_string x) xs)"
| "js_to_string (JObj kvs) = ''[object Object]''"

text \<open>
  The argument of a callback typed \<^verbatim>\<open>string\<close>, or of \<^verbatim>\<open>setState\<close> of a string state:
  the text of the value, which is the value itself when it is a string.
\<close>

fun as_text :: "json option \<Rightarrow> string" where
  "as_text None = ''undefined''"
| "as_text (Some v) = js_to_string v"

text \<open>\<^verbatim>\<open>String.prototype.includes\<close>: the second string occurs in the first.\<close>

fun starts_with :: "string \<Rightarrow> string \<Rightarrow> bool" where
  "starts_with s [] = True"
| "starts_with [] (c # t) = False"
| "starts_with (d # s) (c # t) = (d = c \<and> starts_with s t)"

fun str_includes :: "string \<Rightarrow> string \<Rightarrow> bool" where
  "str_includes [] t = (t = [])"
| "str_includes (c # s) t = (starts_with (c # s) t \<or> str_includes s t)"

text \<open>
  \<^verbatim>\<open>v?.includes(t)\<close> for a string \<open>t\<close>: \<^verbatim>\<open>undefined\<close> (here \<open>False\<close>, the call is only
  tested for truth) on \<^verbatim>\<open>undefined\<close> and \<^verbatim>\<open>null\<close>; the substring test on a string; the
  membership test on an array; a TypeError on the values that have no such method.
\<close>

fun opt_includes :: "json option \<Rightarrow> string \<Rightarrow> exn + bool" where
  "opt_includes None t = Inr False"
| "opt_includes (Some JNull) t = Inr False"
| "opt_includes (Some (JStr s)) t = Inr (str_includes s t)"
| "opt_includes (Some (JArr xs)) t = Inr (JStr t \<in> set xs)"
| "opt_includes (Some v) t = Inl (PlatformError ''errorData.error?.includes is not a function'')"

text \<open>Two hexadecimal digits of a byte, in capitals.\<close>

definition hex_digit :: "nat \<Rightarrow> char" where
  "hex_digit n = ''0123456789ABCDEF'' ! (n mod 16)"

text \<open>
  \<^verbatim>\<open>encodeURIComponent\<close> of a string held as its UTF-8 bytes: the letters, the digits and
  \<^verbatim>\<open>- _ . ! ~ * ' ( )\<close> stay, every other byte becomes \<^verbatim>\<open>%XX\<close>.
\<close>

definition uri_unreserved :: "char \<Rightarrow> bool" where
  "uri_unreserved c =
     (c \<in> set ''ABCDEFGHIJKLMNOPQRSTUVWXYZabcdefghijklmnopqrstuvwxyz0123456789-_.!~*'()'')"

fun encodeURIComponent :: "string \<Rightarrow> string" where
  "encodeURIComponent [] = []"
| "encodeURIComponent (c # s) =
     (if uri_unreserved c then [c]
      else [CHR ''%'', hex_digit (of_char c div 16), hex_digit (of_char c mod 16)])
     @ encodeURIComponent s"

text \<open>
  \<^verbatim>\<open>JSON.stringify\<close> of a value: \<^verbatim>\<open>undefined\<close> for \<^verbatim>\<open>undefined\<close>, else the text.
  In a string the quote, the backslash and the control characters are escaped.
\<close>

definition escape_char :: "char \<Rightarrow> string" where
  "escape_char c =
     (if c = CHR ''\"'' then [CHR 0x5C, CHR ''\"'']
      else if c = CHR 0x5C then [CHR 0x5C, CHR 0x5C]
      else if c = CHR 0x08 then [CHR 0x5C, CHR ''b'']
      else if c = CHR 0x0C then [CHR 0x5C, CHR ''f'']
      else if c = CHR 0x0A then [CHR 0x5C, CHR ''n'']
      else if c = CHR 0x0D then [CHR 0x5C, CHR ''r'']
      else if c = CHR 0x09 then [CHR 0x5C, CHR ''t'']
      else if (of_char c :: nat) < 32
        then [CHR 0x5C, CHR ''u'', CHR ''0'', CHR ''0'',
              ''0123456789abcdef'' ! (of_char c div 16), ''0123456789abcdef'' ! (of_char c mod 16)]
      else [c])"

definition quote :: "string \<Rightarrow> string" where
  "quote s = [CHR ''\"''] @ concat (map escape_char s) @ [CHR ''\"'']"

fun stringify :: "json \<Rightarrow> string" where
  "stringify JNull = ''null''"
| "stringify (JBool b) = (if b then ''true'' else ''false'')"
| "stringify (JNum n) = show_int n"
| "stringify (JStr s) = quote s"
| "stringify (JArr xs) = ''['' @ join '','' (map stringify xs) @ '']''"
| "stringify (JObj kvs) =
     ''{'' @ join '','' (map (\<lambda>kv. quote (fst kv) @ '':'' @ stringify (snd kv)) kvs) @ ''}''"

fun JSON_stringify :: "json option \<Rightarrow> json option" where
  "JSON_stringify None = None"
| "JSON_stringify (Some v) = Some (JStr (stringify v))"

section \<open>The transcription client\<close>

datatype ready_state = CONNECTING | OPEN | CLOSING | CLOSED

text \<open>The socket object: the address it was made for and the state the platform keeps.\<close>

record websocket =
  url :: string
  readyState :: ready_state

text \<open>
  The fields of \<^verbatim>\<open>OpenAIRealtimeSTT\<close>. The callbacks are not state: calling one is an
  effect. \<open>clientSecret\<close> is typed \<^verbatim>\<open>string | null\<close> and holds what the token response
  had in \<^verbatim>\<open>client_secret\<close>.
\<close>

record stt =
  ws :: "websocket option"
  isConnected :: bool
  reconnectAttempts :: nat
  maxReconnectAttempts :: nat
  clientSecret :: "json option"

definition new_stt :: stt where
  "new_stt =
     \<lparr>ws = None, isConnected = False, reconnectAttempts = 0,
      maxReconnectAttempts = 3, clientSecret = Some JNull\<rparr>"

subsection \<open>connect\<close>

text \<open>
  The response of the token endpoint: its status, and its body when the body is JSON
  (\<open>None\<close> when it is not, so that \<^verbatim>\<open>json()\<close> rejects).
\<close>

record http_response =
  status :: nat
  body :: "json option"

definition ok :: "http_response \<Rightarrow> bool" where
  "ok r = (200 \<le> status r \<and> status r \<le> 299)"

definition response_json :: "http_response \<Rightarrow> exn + json" where
  "response_json r =
     (case body r of
        None \<Rightarrow> Inl (PlatformError ''Unexpected token in JSON'')
      | Some v \<Rightarrow> Inr v)"

definition guidance :: string where
  "guidance = ''Please set your OPENAI_API_KEY in .env.local file. Get your API key from https://platform.openai.com/account/api-keys''"

text \<open>
  Lines 30 to 34, what is thrown when the response is not ok. \<^verbatim>\<open>errorData\<close> is the body,
  or \<^verbatim>\<open>{}\<close> when the body is not JSON.
\<close>

definition token_error :: "http_response \<Rightarrow> exn" where
  "token_error tokenResponse =
     (let errorData = (case response_json tokenResponse of Inl e \<Rightarrow> JObj [] | Inr v \<Rightarrow> v)
      in case get_prop (Some errorData) ''error'' of
           Inl e \<Rightarrow> e
         | Inr err \<Rightarrow>
            (case opt_includes err ''API key'' of
               Inl e \<Rightarrow> e
             | Inr True \<Rightarrow> Error guidance
             | Inr False \<Rightarrow>
                (case opt_includes err ''your_openai_api_key'' of
                   Inl e \<Rightarrow> e
                 | Inr True \<Rightarrow> Error guidance
                 | Inr False \<Rightarrow>
                     Error (''Failed to get OpenAI token: '' @
                            as_text (js_or err (Some (JStr ''Unknown error'')))))))"

text \<open>
  The \<^verbatim>\<open>try\<close> block of \<^verbatim>\<open>connect\<close>, lines 24 to 52. The argument is what \<^verbatim>\<open>fetch\<close>
  settles with: a rejection or a response. The result is the client, the effects, and
  the thrown value or normal completion. The four handlers are bound to the new socket;
  the platform calls them (the functions \<open>handleOpen\<close>, \<open>handleMessage\<close>, \<open>handleClose\<close>
  and \<open>handleError\<close> below).
\<close>

definition connect_try :: "stt \<Rightarrow> exn + http_response \<Rightarrow> stt \<times> effect list \<times> (exn + unit)" where
  "connect_try s fetched =
     (case fetched of
        Inl e \<Rightarrow> (s, [], Inl e)
      | Inr tokenResponse \<Rightarrow>
          if \<not> ok tokenResponse then (s, [], Inl (token_error tokenResponse))
          else
            (case response_json tokenResponse of
               Inl e \<Rightarrow> (s, [], Inl e)
             | Inr data \<Rightarrow>
                (case get_prop (Some data) ''client_secret'' of
                   Inl e \<Rightarrow> (s, [], Inl e)
                 | Inr secret \<Rightarrow>
                     if \<not> truthy secret
                     then (s\<lparr>clientSecret := secret\<rparr>, [],
                           Inl (Error ''No client_secret received from server''))
                     else
                       (let wsUrl =
                          ''wss://api.openai.com/v1/realtime?model=gpt-4o-realtime-preview&client_secret=''
                          @ encodeURIComponent (as_text secret)
                        in (s\<lparr>clientSecret := secret,
                              ws := Some \<lparr>url = wsUrl, readyState = CONNECTING\<rparr>\<rparr>,
                            [NewWebSocket wsUrl], Inr ())))))"

text \<open>
  \<^verbatim>\<open>connect\<close> with its \<^verbatim>\<open>catch\<close>, lines 54 to 58: the error is logged, reported through
  \<^verbatim>\<open>onError\<close> with its message (every thrown value here is an \<^verbatim>\<open>Error\<close>), and thrown
  again.
\<close>

definition connect :: "stt \<Rightarrow> exn + http_response \<Rightarrow> stt \<times> effect list \<times> (exn + unit)" where
  "connect s fetched =
     (case connect_try s fetched of
        (s', effects, Inl e) \<Rightarrow>
          (s', effects @ [ConsoleError ''Failed to connect to OpenAI:'', OnError (message e)],
           Inl e)
      | (s', effects, Inr u) \<Rightarrow> (s', effects, Inr u))"

subsection \<open>disconnect\<close>

definition disconnect :: "stt \<Rightarrow> stt \<times> effect list" where
  "disconnect s =
     (s\<lparr>ws := None, isConnected := False\<rparr>,
      (case ws s of Some w \<Rightarrow> [WsClose] | None \<Rightarrow> []) @ [OnConnectionStateChange False])"

subsection \<open>sendAudioData\<close>

text \<open>
  \<^verbatim>\<open>ws.send(frame)\<close> as the platform defines it: an InvalidStateError while the socket
  is still connecting; the frame goes to the network when the socket is open; it is
  dropped without an error when the socket is closing or closed.
\<close>

definition ws_send :: "websocket \<Rightarrow> client_msg \<Rightarrow> exn + effect list" where
  "ws_send w frame =
     (case readyState w of
        CONNECTING \<Rightarrow> Inl (PlatformError ''InvalidStateError'')
      | OPEN \<Rightarrow> Inr [WsSend frame]
      | CLOSING \<Rightarrow> Inr []
      | CLOSED \<Rightarrow> Inr [])"

text \<open>
  The \<^verbatim>\<open>try\<close> block of \<^verbatim>\<open>sendAudioData\<close>, lines 78 to 94, on the socket \<open>w\<close>: the effects
  made, and whether the block ended by a throw. The buffer is encoded only after the
  validation has returned true, that is for a \<^verbatim>\<open>Float32Array\<close>.
\<close>

definition send_try :: "websocket \<Rightarrow> audio_input \<Rightarrow> effect list \<times> exn option" where
  "send_try w audioData =
     (case validateAudioData audioData of
        (False, logged) \<Rightarrow> (logged, None)
      | (True, logged) \<Rightarrow>
          (let pcm16Buffer = (case audioData of Float32Array xs \<Rightarrow> encode xs
                                              | NotFloat32Array \<Rightarrow> [])
           in case ws_send w (InputAudioBufferAppend (arrayBufferToBase64 pcm16Buffer)) of
                Inl e \<Rightarrow> (logged, Some e)
              | Inr sent1 \<Rightarrow>
                 (case ws_send w InputAudioBufferCommit of
                    Inl e \<Rightarrow> (logged @ sent1, Some e)
                  | Inr sent2 \<Rightarrow> (logged @ sent1 @ sent2, None))))"

definition sendAudioData :: "stt \<Rightarrow> audio_input \<Rightarrow> stt \<times> effect list" where
  "sendAudioData s audioData =
     (if \<not> isConnected s \<or> ws s = None then (s, [])
      else
        (case ws s of
           None \<Rightarrow> (s, [])
         | Some w \<Rightarrow>
            (case send_try w audioData of
               (effects, Some e) \<Rightarrow> (s, effects @ [ConsoleError ''Failed to send audio data:''])
             | (effects, None) \<Rightarrow> (s, effects))))"

subsection \<open>The handlers of the socket's events\<close>

text \<open>
  \<^verbatim>\<open>handleOpen\<close>, and the function it passes to \<^verbatim>\<open>setTimeout\<close> (lines 109 to 126), which
  runs 100 ms later on the client as it is then.
\<close>

definition handleOpen :: "stt \<Rightarrow> stt \<times> effect list" where
  "handleOpen s =
     (s\<lparr>isConnected := True, reconnectAttempts := 0\<rparr>,
      [ConsoleLog ''WebSocket connected to OpenAI Realtime STT'',
       OnConnectionStateChange True, SetTimeout 100])"

definition configure_session :: "stt \<Rightarrow> exn + effect list" where
  "configure_session s =
     (case ws s of
        None \<Rightarrow> Inr []
      | Some w \<Rightarrow> if readyState w = OPEN then ws_send w SessionUpdate else Inr [])"

text \<open>
  The \<^verbatim>\<open>try\<close> block of \<^verbatim>\<open>handleMessage\<close>, lines 131 to 161. The argument is what
  \<^verbatim>\<open>JSON.parse(event.data)\<close> gives: \<open>None\<close> when the text is not JSON.
\<close>

definition handleMessage_try :: "json option \<Rightarrow> exn + effect list" where
  "handleMessage_try parsed =
     (case parsed of
        None \<Rightarrow> Inl (PlatformError ''Unexpected token in JSON'')
      | Some msg \<Rightarrow>
         (case get_prop (Some msg) ''type'' of
            Inl e \<Rightarrow> Inl e
          | Inr type \<Rightarrow>
              if type = Some (JStr ''conversation.item.input_audio_transcription.completed'')
              then (if truthy (get_prop_opt (Some msg) ''transcript'')
                    then Inr [OnFinalTranscript (as_text (get_prop_opt (Some msg) ''transcript''))]
                    else Inr [])
              else if type = Some (JStr ''response.text.delta'')
              then (if truthy (get_prop_opt (Some msg) ''delta'')
                    then Inr [OnPartialTranscript (as_text (get_prop_opt (Some msg) ''delta''))]
                    else Inr [])
              else if type = Some (JStr ''error'')
              then (let err = get_prop_opt (Some msg) ''error'';
                        errorMsg =
                          js_or (js_or (js_or (get_prop_opt err ''message'')
                                              (get_prop_opt err ''code''))
                                       (JSON_stringify err))
                                (Some (JStr ''OpenAI error''))
                    in Inr [ConsoleError ''OpenAI error:'', OnError (as_text errorMsg)])
              else if type = Some (JStr ''session.created'')
                    \<or> type = Some (JStr ''session.updated'')
              then Inr [ConsoleLog ''Session ready:'']
              else if truthy type then Inr [ConsoleLog ''OpenAI message:'']
              else Inr []))"

definition handleMessage :: "stt \<Rightarrow> json option \<Rightarrow> stt \<times> effect list" where
  "handleMessage s parsed =
     (case handleMessage_try parsed of
        Inl e \<Rightarrow> (s, [ConsoleError ''Failed to parse OpenAI message:''])
      | Inr effects \<Rightarrow> (s, effects))"

record close_event =
  code :: nat
  reason :: string

definition handleClose :: "stt \<Rightarrow> close_event \<Rightarrow> stt \<times> effect list" where
  "handleClose s event =
     (s\<lparr>isConnected := False\<rparr>,
      [ConsoleLog ''WebSocket closed:'', OnConnectionStateChange False] @
      (if code event \<noteq> 1000
       then (let closeReason =
                   (if reason event \<noteq> [] then reason event
                    else ''WebSocket closed with code '' @ show_nat (code event))
             in [OnError (''Connection closed: '' @ closeReason @ '' (Code: '' @
                          show_nat (code event) @ '')'')])
       else []))"

definition handleError :: "stt \<Rightarrow> stt \<times> effect list" where
  "handleError s =
     (s, [ConsoleError ''WebSocket error:'', OnError ''WebSocket connection error''])"

section \<open>The page\<close>

datatype connection_status = disconnected | connecting | connected

text \<open>The state of the component \<^verbatim>\<open>Home\<close> (lines 8 to 12 of the page).\<close>

record home =
  isRecording :: bool
  finalTranscript :: string
  partialTranscript :: string
  error :: "string option"
  connectionStatus :: connection_status

definition initial_home :: home where
  "initial_home =
     \<lparr>isRecording = False, finalTranscript = [], partialTranscript = [],
      error = None, connectionStatus = disconnected\<rparr>"

definition handlePartialTranscript :: "home \<Rightarrow> string \<Rightarrow> home" where
  "handlePartialTranscript h text = h\<lparr>partialTranscript := text\<rparr>"

definition handleFinalTranscript :: "home \<Rightarrow> string \<Rightarrow> home" where
  "handleFinalTranscript h text =
     h\<lparr>finalTranscript := finalTranscript h @ text @ '' '', partialTranscript := []\<rparr>"

definition handleSTTError :: "home \<Rightarrow> string \<Rightarrow> home" where
  "handleSTTError h e = h\<lparr>error := Some e, isRecording := False\<rparr>"

definition handleConnectionStateChange :: "home \<Rightarrow> bool \<Rightarrow> home" where
  "handleConnectionStateChange h c =
     h\<lparr>connectionStatus := (if c then connected else disconnected)\<rparr>"

text \<open>
  The callbacks the page gives to the client (lines 86 to 91): what one effect of the
  client does to the page, and a list of them in order.
\<close>

fun callback :: "home \<Rightarrow> effect \<Rightarrow> home" where
  "callback h (OnPartialTranscript text) = handlePartialTranscript h text"
| "callback h (OnFinalTranscript text) = handleFinalTranscript h text"
| "callback h (OnError e) = handleSTTError h e"
| "callback h (OnConnectionStateChange c) = handleConnectionStateChange h c"
| "callback h other = h"

definition callbacks :: "home \<Rightarrow> effect list \<Rightarrow> home" where
  "callbacks h effects = foldl callback h effects"

text \<open>
  The response of lines 8 to 11 of the token route (\<^verbatim>\<open>POST\<close>), which it returns when
  the environment has no \<^verbatim>\<open>OPENAI_API_KEY\<close>.
\<close>

definition key_not_configured_response :: http_response where
  "key_not_configured_response =
     \<lparr>status = 500, body = Some (JObj [(''error'', JStr ''OpenAI API key not configured'')])\<rparr>"

section \<open>Observations on a list of effects\<close>

text \<open>The frames sent over the socket, the error signals and the connection-state signals.\<close>

fun sent_frames :: "effect list \<Rightarrow> client_msg list" where
  "sent_frames [] = []"
| "sent_frames (WsSend frame # es) = frame # sent_frames es"
| "sent_frames (e # es) = sent_frames es"

fun error_signals :: "effect list \<Rightarrow> string list" where
  "error_signals [] = []"
| "error_signals (OnError e # es) = e # error_signals es"
| "error_signals (e # es) = error_signals es"

fun state_signals :: "effect list \<Rightarrow> bool list" where
  "state_signals [] = []"
| "state_signals (OnConnectionStateChange c # es) = c # state_signals es"
| "state_signals (e # es) = state_signals es"

text \<open>The transcript deliveries: \<open>Inl\<close> a partial one, \<open>Inr\<close> a final one.\<close>

fun transcript_deliveries :: "effect list \<Rightarrow> (string + string) list" where
  "transcript_deliveries [] = []"
| "transcript_deliveries (OnPartialTranscript t # es) = Inl t # transcript_deliveries es"
| "transcript_deliveries (OnFinalTranscript t # es) = Inr t # transcript_deliveries es"
| "transcript_deliveries (e # es) = transcript_deliveries es"

section \<open>Properties of the encoder\<close>

lemma sint_int16:
  "- 32768 \<le> k \<Longrightarrow> k \<le> 32767 \<Longrightarrow> sint (word_of_int k :: 16 word) = k"
  by (simp add: sint_sbintrunc' signed_take_bit_int_eq_self)

lemma clamp_simps:
  "clamp NaN = NaN" "clamp PosInf = Fin 1" "clamp NegInf = Fin (- 1)"
  "clamp NegZero = NegZero" "clamp (Fin q) = Fin (max (- 1) (min 1 q))"
  by (auto simp: clamp_def Math_min_def Math_max_def)

lemma scale_Fin:
  "- 1 \<le> c \<Longrightarrow> c \<le> 1 \<Longrightarrow>
   scale (Fin c) = Fin (c * (if c < 0 then 32768 else 32767))"
  by (auto simp: scale_def js_times_def)

lemma truncate_rat_bounds:
  "- 1 \<le> c \<Longrightarrow> c \<le> 1 \<Longrightarrow>
   - 32768 \<le> truncate_rat (c * (if c < 0 then 32768 else 32767)) \<and>
   truncate_rat (c * (if c < 0 then 32768 else 32767)) \<le> 32767"
proof (cases "c < 0")
  case True
  assume "- 1 \<le> c"
  then have "- 32768 \<le> c * 32768" by simp
  moreover have "c * 32768 \<le> 0" using True by simp
  ultimately show ?thesis using True
    by (simp add: truncate_rat_def le_ceiling_iff ceiling_le_iff)
next
  case False
  assume "c \<le> 1"
  then have "c * 32767 \<le> 32767" by simp
  moreover have "0 \<le> c * 32767" using False by simp
  ultimately show ?thesis using False
    by (simp add: truncate_rat_def le_floor_iff floor_le_iff)
qed

text \<open>The stored 16-bit value is the truncated product itself: the conversion never wraps.\<close>

lemma sint_encode_sample:
  "sint (encode_sample x) = truncate_rat (fval (scale (clamp x)))"
proof (cases x)
  case (Fin q)
  let ?c = "max (- 1) (min 1 q)"
  have b: "- 1 \<le> ?c" "?c \<le> 1" by auto
  show ?thesis
    using truncate_rat_bounds[OF b] scale_Fin[OF b]
    by (simp add: Fin encode_sample_def clamp_simps sint_int16)
qed (simp_all add: encode_sample_def clamp_simps scale_def js_times_def truncate_rat_def)

lemma scale_clamp_neg:
  "js_lt x (Fin 0) \<Longrightarrow> fval (scale (clamp x)) = fval (clamp x) * 32768"
  by (cases x) (auto simp: clamp_simps scale_def js_times_def)

lemma scale_clamp_nonneg:
  "js_le (Fin 0) x \<Longrightarrow> fval (scale (clamp x)) = fval (clamp x) * 32767"
  by (cases x) (auto simp: clamp_simps scale_def js_times_def js_le_def)

lemma clamp_in_range:
  "x \<noteq> NaN \<Longrightarrow> js_le (Fin (- 1)) (clamp x) \<and> js_le (clamp x) (Fin 1)"
  by (cases x) (auto simp: clamp_simps js_le_def)

lemma clamp_inside:
  "js_le (Fin (- 1)) x \<Longrightarrow> js_le x (Fin 1) \<Longrightarrow> clamp x = x"
  by (cases x) (auto simp: clamp_simps js_le_def)

lemma clamp_outside:
  "js_lt (Fin 1) x \<Longrightarrow> clamp x = Fin 1" "js_lt x (Fin (- 1)) \<Longrightarrow> clamp x = Fin (- 1)"
  by (cases x; auto simp: clamp_simps)+

text \<open>The loop has filled the first \<open>i\<close> elements and will fill the others.\<close>

lemma encode_loop_inv:
  "length out = length xs \<Longrightarrow> i \<le> length xs \<Longrightarrow>
   encode_loop xs i out = take i out @ map encode_sample (drop i xs)"
proof (induction xs i out rule: encode_loop.induct)
  case (1 xs i out)
  show ?case
  proof (cases "i < length xs")
    case True
    have "encode_loop xs i out = encode_loop xs (Suc i) (out[i := encode_sample (xs ! i)])"
      using True by (subst encode_loop.simps) (simp add: encode_sample_def)
    also have "\<dots> = take (Suc i) (out[i := encode_sample (xs ! i)]) @
                     map encode_sample (drop (Suc i) xs)"
      using "1.IH"[OF True] True "1.prems" by (simp add: encode_sample_def)
    also have "\<dots> = take i out @ map encode_sample (drop i xs)"
      using True "1.prems"
      by (simp add: take_Suc_conv_app_nth Cons_nth_drop_Suc[symmetric])
    finally show ?thesis .
  next
    case False
    then show ?thesis using "1.prems" by (subst encode_loop.simps) simp
  qed
qed

lemma encode_map: "encode xs = map encode_sample xs"
  by (simp add: encode_def encode_loop_inv)

lemma floor_half: "\<lfloor>32767 / 2 :: rat\<rfloor> = 16383"
  by (simp add: floor_eq_iff)

text \<open>
  C1 (as amended). For every sample the stored value lies in \<open>[-32768, 32767]\<close>. For
  every sample other than NaN the clamped value lies in \<open>[-1, 1]\<close>: it is the sample itself
  when the sample is in that interval, 1 above it and -1 below it. A negative sample is
  stored as its clamped value times 32768, truncated towards zero, and a non-negative one
  as its clamped value times 32767, truncated towards zero, with no wrap-around. -1.0 is
  stored as -32768, 1.0 as 32767 and 0.0 as 0.
\<close>

theorem encode_sample_clamps_and_scales:
  "- 32768 \<le> sint (encode_sample x) \<and> sint (encode_sample x) \<le> 32767 \<and>
   (x \<noteq> NaN \<longrightarrow> js_le (Fin (- 1)) (clamp x) \<and> js_le (clamp x) (Fin 1)) \<and>
   (js_le (Fin (- 1)) x \<and> js_le x (Fin 1) \<longrightarrow> clamp x = x) \<and>
   (js_lt (Fin 1) x \<longrightarrow> clamp x = Fin 1) \<and>
   (js_lt x (Fin (- 1)) \<longrightarrow> clamp x = Fin (- 1)) \<and>
   (js_lt x (Fin 0) \<longrightarrow>
      sint (encode_sample x) = truncate_rat (fval (clamp x) * 32768)) \<and>
   (js_le (Fin 0) x \<longrightarrow>
      sint (encode_sample x) = truncate_rat (fval (clamp x) * 32767)) \<and>
   sint (encode_sample (Fin (- 1))) = - 32768 \<and>
   sint (encode_sample (Fin 1)) = 32767 \<and>
   sint (encode_sample (Fin 0)) = 0"
proof -
  have r: "- 32768 \<le> sint (encode_sample x) \<and> sint (encode_sample x) \<le> 32767"
    using sint_ge[of "encode_sample x"] sint_lt[of "encode_sample x"] by simp
  have v: "sint (encode_sample (Fin (- 1))) = - 32768"
      "sint (encode_sample (Fin 1)) = 32767" "sint (encode_sample (Fin 0)) = 0"
    by (simp_all add: sint_encode_sample clamp_simps scale_def js_times_def truncate_rat_def)
  show ?thesis
    using r v clamp_in_range[of x] scale_clamp_neg[of x] scale_clamp_nonneg[of x]
      clamp_inside[of x] clamp_outside[of x]
    by (simp add: sint_encode_sample)
qed

theorem encode_sample_clamps_and_scales_witness:
  "js_lt (Fin (- 1 / 2)) (Fin 0) \<and> sint (encode_sample (Fin (- 1 / 2))) = - 16384 \<and>
   js_le (Fin 0) (Fin (1 / 2)) \<and> sint (encode_sample (Fin (1 / 2))) = 16383 \<and>
   js_lt (Fin 1) (Fin 3) \<and> clamp (Fin 3) = Fin 1 \<and> sint (encode_sample (Fin 3)) = 32767 \<and>
   js_lt NegInf (Fin (- 1)) \<and> clamp NegInf = Fin (- 1) \<and>
   sint (encode_sample NegInf) = - 32768"
  using encode_sample_clamps_and_scales[of "Fin (- 1 / 2)"]
    encode_sample_clamps_and_scales[of "Fin (1 / 2)"]
    encode_sample_clamps_and_scales[of "Fin 3"]
    encode_sample_clamps_and_scales[of NegInf]
  by (simp add: js_le_def truncate_rat_def floor_half)

text \<open>
  C1 as it is stated fails for the sample NaN: \<^verbatim>\<open>Math.min\<close> and \<^verbatim>\<open>Math.max\<close> return NaN,
  so the clamped value is NaN and is not in \<open>[-1, 1]\<close>.
\<close>

theorem clamp_NaN_not_in_range:
  "\<not> (js_le (Fin (- 1)) (clamp NaN) \<and> js_le (clamp NaN) (Fin 1))"
  by (simp add: clamp_simps js_le_def)

text \<open>
  C2. The output of \<^verbatim>\<open>encode\<close> has the length of the input, and its element at every
  index is the conversion of the input's sample at that index. \<^verbatim>\<open>encode\<close> has no error
  result: the loop reads and writes inside both arrays only.
\<close>

theorem encode_length_and_order:
  "length (encode xs) = length xs \<and>
   encode xs = map (\<lambda>x. ToInt16 (scale (clamp x))) xs \<and>
   (\<forall>i<length xs. encode xs ! i = ToInt16 (scale (clamp (xs ! i))))"
  by (simp add: encode_map encode_sample_def)

theorem encode_length_and_order_witness:
  "length (encode [Fin (1 / 2), NaN, Fin (- 1)]) = 3 \<and>
   encode [Fin (1 / 2), NaN, Fin (- 1)] ! 2 = ToInt16 (scale (clamp (Fin (- 1)))) \<and>
   encode [Fin (1 / 2), NaN, Fin (- 1)] = [16383, 0, - 32768]"
  using encode_length_and_order[of "[Fin (1 / 2), NaN, Fin (- 1)]"]
  by (simp add: clamp_simps scale_def js_times_def truncate_rat_def floor_half)

text \<open>
  C10. NaN passes through the clamp, is not below 0, stays NaN when multiplied by 32767,
  and is stored as 0. So the output of \<^verbatim>\<open>encode\<close> has a 0 at every index where the input
  has NaN, and \<^verbatim>\<open>encode\<close> returns an output of the input's length for every input.
\<close>

theorem encode_NaN_is_zero:
  "clamp NaN = NaN \<and> \<not> js_lt (clamp NaN) (Fin 0) \<and> scale (clamp NaN) = NaN \<and>
   ToInt16 NaN = 0 \<and> length (encode xs) = length xs \<and>
   (\<forall>i<length xs. xs ! i = NaN \<longrightarrow> encode xs ! i = 0)"
  by (simp add: encode_map encode_sample_def clamp_simps scale_def js_times_def)

theorem encode_NaN_is_zero_witness:
  "encode [Fin (1 / 2), NaN, PosInf] ! 1 = 0 \<and>
   length (encode [Fin (1 / 2), NaN, PosInf]) = 3"
  using encode_NaN_is_zero[of "[Fin (1 / 2), NaN, PosInf]"]
  by simp

section \<open>Properties of the validation\<close>

lemma quiet_sample_not_valid:
  "x = NaN \<or> js_le (Math_abs x) (Fin level_threshold) \<Longrightarrow>
   \<not> (\<not> isNaN x \<and> \<not> js_strict_eq x (Fin 0) \<and> js_lt (Fin level_threshold) (Math_abs x))"
  by (auto simp: isNaN_def js_le_def)

lemma quiet_buffer_not_valid:
  "\<forall>x\<in>set xs. x = NaN \<or> js_le (Math_abs x) (Fin level_threshold) \<Longrightarrow>
   \<not> hasValidSamples xs"
  unfolding hasValidSamples_def list_ex_iff using quiet_sample_not_valid by blast

text \<open>
  C8. For every \<^verbatim>\<open>Float32Array\<close> the validation returns true. When every sample is NaN or
  has an absolute value of at most 0.0001 (zero included), it logs one warning and still
  returns true.
\<close>

theorem validateAudioData_never_rejects:
  "fst (validateAudioData (Float32Array xs)) = True \<and>
   ((\<forall>x\<in>set xs. x = NaN \<or> js_le (Math_abs x) (Fin level_threshold)) \<longrightarrow>
      validateAudioData (Float32Array xs) =
        (True, [ConsoleWarn ''Audio data appears to be silent or invalid'']))"
  using quiet_buffer_not_valid[of xs] by simp

theorem validateAudioData_never_rejects_witness:
  "list_all (\<lambda>x. x = NaN \<or> js_le (Math_abs x) (Fin level_threshold))
      [Fin 0, NegZero, NaN, Fin (1 / 100000), Fin (- 1 / 100000)] \<and>
   validateAudioData (Float32Array [Fin 0, NegZero, NaN, Fin (1 / 100000), Fin (- 1 / 100000)]) =
     (True, [ConsoleWarn ''Audio data appears to be silent or invalid'']) \<and>
   validateAudioData (Float32Array []) =
     (True, [ConsoleWarn ''Audio data appears to be silent or invalid''])"
  using validateAudioData_never_rejects[of "[Fin 0, NegZero, NaN, Fin (1 / 100000), Fin (- 1 / 100000)]"]
    validateAudioData_never_rejects[of "[]"]
  by (simp add: js_le_def level_threshold_def)

section \<open>Properties of the client\<close>

text \<open>
  C9. After \<^verbatim>\<open>disconnect\<close> the client holds no socket and is not connected, whatever its
  state was; the socket is closed exactly when the client held one; one connection-state
  signal is made, with the value false. A second call leaves the state the first call
  left, and signals false again.
\<close>

theorem disconnect_idempotent:
  "ws (fst (disconnect s)) = None \<and> isConnected (fst (disconnect s)) = False \<and>
   fst (disconnect s) = s\<lparr>ws := None, isConnected := False\<rparr> \<and>
   (WsClose \<in> set (snd (disconnect s))) = (ws s \<noteq> None) \<and>
   length (filter (\<lambda>e. e = WsClose) (snd (disconnect s))) \<le> 1 \<and>
   state_signals (snd (disconnect s)) = [False] \<and>
   error_signals (snd (disconnect s)) = [] \<and>
   fst (disconnect (fst (disconnect s))) = fst (disconnect s) \<and>
   snd (disconnect (fst (disconnect s))) = [OnConnectionStateChange False]"
  by (cases "ws s") (simp_all add: disconnect_def)

theorem disconnect_idempotent_witness:
  "disconnect (new_stt\<lparr>ws := Some \<lparr>url = ''wss://x'', readyState = OPEN\<rparr>, isConnected := True\<rparr>)
     = (new_stt, [WsClose, OnConnectionStateChange False]) \<and>
   disconnect new_stt = (new_stt, [OnConnectionStateChange False]) \<and>
   fst (disconnect (fst (disconnect
     (new_stt\<lparr>ws := Some \<lparr>url = ''wss://x'', readyState = OPEN\<rparr>, isConnected := True\<rparr>)))) = new_stt"
  using disconnect_idempotent[of "new_stt\<lparr>ws := Some \<lparr>url = ''wss://x'', readyState = OPEN\<rparr>, isConnected := True\<rparr>"]
    disconnect_idempotent[of new_stt]
  by (simp add: disconnect_def new_stt_def)

lemma starts_with_append: "starts_with (t @ b) t"
  by (induction t) simp_all

lemma str_includes_here: "str_includes (t @ b) t"
proof (cases "t @ b")
  case Nil
  then show ?thesis by simp
next
  case (Cons c u)
  have "starts_with (t @ b) t" by (rule starts_with_append)
  then have "starts_with (c # u) t" using Cons by simp
  then have "str_includes (c # u) t" by simp
  then show ?thesis using Cons by simp
qed

lemma str_includes_middle: "str_includes (a @ t @ b) t"
proof (induction a)
  case Nil
  show ?case using str_includes_here by simp
next
  case (Cons c a)
  then show ?case by simp
qed

text \<open>
  C5. A close event makes one connection-state signal, false, and leaves the client not
  connected. With the code 1000 it makes no error signal. With any other code it makes
  exactly one error signal, whose text contains the reason of the event and the decimal
  digits of the code.
\<close>

theorem handleClose_signals:
  "isConnected (fst (handleClose s event)) = False \<and>
   state_signals (snd (handleClose s event)) = [False] \<and>
   (code event = 1000 \<longrightarrow> error_signals (snd (handleClose s event)) = []) \<and>
   (code event \<noteq> 1000 \<longrightarrow>
      error_signals (snd (handleClose s event)) =
        [''Connection closed: '' @
         (if reason event \<noteq> [] then reason event
          else ''WebSocket closed with code '' @ show_nat (code event)) @
         '' (Code: '' @ show_nat (code event) @ '')''] \<and>
      (\<forall>text \<in> set (error_signals (snd (handleClose s event))).
         str_includes text (reason event) \<and> str_includes text (show_nat (code event))))"
proof -
  have a: "str_includes (''Connection closed: '' @ r @ '' (Code: '' @ c @ '')'') r" for r c :: string
    using str_includes_middle[of "''Connection closed: ''" r "'' (Code: '' @ c @ '')''"] by simp
  have b: "str_includes (''Connection closed: '' @ r @ '' (Code: '' @ c @ '')'') c" for r c :: string
    using str_includes_middle[of "''Connection closed: '' @ r @ '' (Code: ''" c "'')''"] by simp
  have c: "str_includes t []" for t by (cases t) simp_all
  show ?thesis
    using a b c by (auto simp add: handleClose_def Let_def simp del: str_includes.simps)
qed

theorem handleClose_signals_witness:
  "error_signals (snd (handleClose new_stt \<lparr>code = 1000, reason = []\<rparr>)) = [] \<and>
   state_signals (snd (handleClose new_stt \<lparr>code = 1000, reason = []\<rparr>)) = [False] \<and>
   error_signals (snd (handleClose new_stt \<lparr>code = 1006, reason = []\<rparr>)) =
     [''Connection closed: WebSocket closed with code 1006 (Code: 1006)''] \<and>
   state_signals (snd (handleClose new_stt \<lparr>code = 1006, reason = []\<rparr>)) = [False] \<and>
   error_signals (snd (handleClose new_stt \<lparr>code = 1011, reason = ''server error''\<rparr>)) =
     [''Connection closed: server error (Code: 1011)'']"
proof -
  have n: "show_nat 1006 = ''1006''" "show_nat 1011 = ''1011''" by code_simp+
  show ?thesis
    using handleClose_signals[of new_stt "\<lparr>code = 1000, reason = []\<rparr>"]
      handleClose_signals[of new_stt "\<lparr>code = 1006, reason = []\<rparr>"]
      handleClose_signals[of new_stt "\<lparr>code = 1011, reason = ''server error''\<rparr>"]
    by (simp add: n)
qed

text \<open>
  C7. A transcription-completed message with the transcript \<open>hello\<close> makes exactly one
  delivery, a final one, after which the page has \<open>hello\<close> and a space appended to its
  final text (so the text is \<open>hello\<close> and a space from the initial page) and no partial
  text. A text-delta message with the delta \<open>wor\<close> makes exactly one delivery, a partial
  one, after which the page has the partial text \<open>wor\<close> and the final text it had.
\<close>

theorem transcript_events_delivered:
  "(map_of (rev kvs) ''type'' =
      Some (JStr ''conversation.item.input_audio_transcription.completed'') \<and>
    map_of (rev kvs) ''transcript'' = Some (JStr ''hello'') \<longrightarrow>
      handleMessage s (Some (JObj kvs)) = (s, [OnFinalTranscript ''hello'']) \<and>
      transcript_deliveries (snd (handleMessage s (Some (JObj kvs)))) = [Inr ''hello''] \<and>
      callbacks h (snd (handleMessage s (Some (JObj kvs)))) =
        h\<lparr>finalTranscript := finalTranscript h @ ''hello '', partialTranscript := []\<rparr> \<and>
      finalTranscript (callbacks initial_home (snd (handleMessage s (Some (JObj kvs))))) =
        ''hello '') \<and>
   (map_of (rev kvs) ''type'' = Some (JStr ''response.text.delta'') \<and>
    map_of (rev kvs) ''delta'' = Some (JStr ''wor'') \<longrightarrow>
      handleMessage s (Some (JObj kvs)) = (s, [OnPartialTranscript ''wor'']) \<and>
      transcript_deliveries (snd (handleMessage s (Some (JObj kvs)))) = [Inl ''wor''] \<and>
      callbacks h (snd (handleMessage s (Some (JObj kvs)))) = h\<lparr>partialTranscript := ''wor''\<rparr> \<and>
      finalTranscript (callbacks h (snd (handleMessage s (Some (JObj kvs))))) =
        finalTranscript h)"
  by (simp add: handleMessage_def handleMessage_try_def callbacks_def
      handleFinalTranscript_def handlePartialTranscript_def initial_home_def)

theorem transcript_events_delivered_witness:
  "handleMessage new_stt
     (Some (JObj [(''type'', JStr ''conversation.item.input_audio_transcription.completed''),
                  (''event_id'', JStr ''event_1''), (''transcript'', JStr ''hello'')]))
     = (new_stt, [OnFinalTranscript ''hello'']) \<and>
   callbacks (initial_home\<lparr>partialTranscript := ''hel''\<rparr>) [OnFinalTranscript ''hello'']
     = initial_home\<lparr>finalTranscript := ''hello ''\<rparr> \<and>
   handleMessage new_stt
     (Some (JObj [(''type'', JStr ''response.text.delta''), (''delta'', JStr ''wor'')]))
     = (new_stt, [OnPartialTranscript ''wor'']) \<and>
   callbacks (initial_home\<lparr>finalTranscript := ''hello ''\<rparr>) [OnPartialTranscript ''wor'']
     = initial_home\<lparr>finalTranscript := ''hello '', partialTranscript := ''wor''\<rparr>"
proof -
  let ?completed = "[(''type'', JStr ''conversation.item.input_audio_transcription.completed''),
                     (''event_id'', JStr ''event_1''), (''transcript'', JStr ''hello'')]"
  let ?delta = "[(''type'', JStr ''response.text.delta''), (''delta'', JStr ''wor'')]"
  let ?h1 = "initial_home\<lparr>partialTranscript := ''hel''\<rparr>"
  let ?h2 = "initial_home\<lparr>finalTranscript := ''hello ''\<rparr>"
  have is_completed:
    "map_of (rev ?completed) ''type'' =
       Some (JStr ''conversation.item.input_audio_transcription.completed'') \<and>
     map_of (rev ?completed) ''transcript'' = Some (JStr ''hello'')"
    by simp
  have is_delta:
    "map_of (rev ?delta) ''type'' = Some (JStr ''response.text.delta'') \<and>
     map_of (rev ?delta) ''delta'' = Some (JStr ''wor'')"
    by simp
  note final = transcript_events_delivered[of ?completed new_stt ?h1, THEN conjunct1, THEN mp, OF is_completed]
  note partial = transcript_events_delivered[of ?delta new_stt ?h2, THEN conjunct2, THEN mp, OF is_delta]
  have a: "handleMessage new_stt (Some (JObj ?completed)) = (new_stt, [OnFinalTranscript ''hello''])"
    using final by blast
  have b: "callbacks ?h1 (snd (handleMessage new_stt (Some (JObj ?completed)))) =
            ?h1\<lparr>finalTranscript := finalTranscript ?h1 @ ''hello '', partialTranscript := []\<rparr>"
    using final by blast
  have c: "handleMessage new_stt (Some (JObj ?delta)) = (new_stt, [OnPartialTranscript ''wor''])"
    using partial by blast
  have d: "callbacks ?h2 (snd (handleMessage new_stt (Some (JObj ?delta)))) =
            ?h2\<lparr>partialTranscript := ''wor''\<rparr>"
    using partial by blast
  have b': "callbacks ?h1 [OnFinalTranscript ''hello''] = initial_home\<lparr>finalTranscript := ''hello ''\<rparr>"
    using b unfolding a by (simp add: initial_home_def)
  have d': "callbacks ?h2 [OnPartialTranscript ''wor''] =
            initial_home\<lparr>finalTranscript := ''hello '', partialTranscript := ''wor''\<rparr>"
    using d unfolding c by simp
  show ?thesis using a b' c d' by simp
qed

lemma sent_frames_append: "sent_frames (xs @ ys) = sent_frames xs @ sent_frames ys"
  by (induction xs rule: sent_frames.induct) simp_all

lemma error_signals_append: "error_signals (xs @ ys) = error_signals xs @ error_signals ys"
  by (induction xs rule: error_signals.induct) simp_all

lemma state_signals_append: "state_signals (xs @ ys) = state_signals xs @ state_signals ys"
  by (induction xs rule: state_signals.induct) simp_all

lemma validate_quiet:
  "sent_frames (snd (validateAudioData a)) = []"
  "error_signals (snd (validateAudioData a)) = []"
  "state_signals (snd (validateAudioData a)) = []"
  by (cases a; simp)+

lemma fst_sendAudioData: "fst (sendAudioData s audioData) = s"
  by (auto simp: sendAudioData_def split: option.splits prod.splits)

lemma send_try_Float32Array:
  "send_try w (Float32Array xs) =
     (case readyState w of
        CONNECTING \<Rightarrow> (snd (validateAudioData (Float32Array xs)), Some (PlatformError ''InvalidStateError''))
      | OPEN \<Rightarrow> (snd (validateAudioData (Float32Array xs)) @
                  [WsSend (InputAudioBufferAppend (arrayBufferToBase64 (encode xs))),
                   WsSend InputAudioBufferCommit], None)
      | CLOSING \<Rightarrow> (snd (validateAudioData (Float32Array xs)), None)
      | CLOSED \<Rightarrow> (snd (validateAudioData (Float32Array xs)), None))"
  by (cases "readyState w") (simp_all add: send_try_def ws_send_def)

lemma send_try_other:
  "send_try w NotFloat32Array = ([ConsoleError ''Audio data must be Float32Array''], None)"
  by (simp add: send_try_def)

lemma sent_frames_sendAudioData:
  "sent_frames (snd (sendAudioData s audioData)) =
     (case audioData of
        NotFloat32Array \<Rightarrow> []
      | Float32Array xs \<Rightarrow>
          (case ws s of
             None \<Rightarrow> []
           | Some w \<Rightarrow>
               if isConnected s \<and> readyState w = OPEN
               then [InputAudioBufferAppend (arrayBufferToBase64 (encode xs)), InputAudioBufferCommit]
               else []))"
proof (cases audioData)
  case NotFloat32Array
  then show ?thesis
    by (auto simp: sendAudioData_def send_try_other split: option.splits)
next
  case (Float32Array xs)
  show ?thesis
  proof (cases "ws s")
    case None
    then show ?thesis by (simp add: sendAudioData_def Float32Array)
  next
    case (Some w)
    then show ?thesis
      by (cases "readyState w")
         (simp_all add: sendAudioData_def Float32Array send_try_Float32Array sent_frames_append)
  qed
qed

text \<open>
  C3. The frames one call of \<^verbatim>\<open>sendAudioData\<close> sends are either none, or the append frame
  with the base64 text of the encoded buffer followed by the commit frame: the commit is
  never sent alone or first. A call on a connected client whose socket is open, with a
  \<^verbatim>\<open>Float32Array\<close>, sends exactly these two frames in this order.
\<close>

theorem sendAudioData_append_then_commit:
  "(sent_frames (snd (sendAudioData s audioData)) = [] \<or>
    (\<exists>xs. audioData = Float32Array xs \<and>
      sent_frames (snd (sendAudioData s audioData)) =
        [InputAudioBufferAppend (arrayBufferToBase64 (encode xs)), InputAudioBufferCommit])) \<and>
   (isConnected s \<and> ws s = Some w \<and> readyState w = OPEN \<longrightarrow>
      sent_frames (snd (sendAudioData s (Float32Array xs))) =
        [InputAudioBufferAppend (arrayBufferToBase64 (encode xs)), InputAudioBufferCommit])"
  by (cases audioData; cases "ws s") (simp_all add: sent_frames_sendAudioData)

theorem sendAudioData_append_then_commit_witness:
  "isConnected (new_stt\<lparr>isConnected := True, ws := Some \<lparr>url = ''wss://x'', readyState = OPEN\<rparr>\<rparr>) \<and>
   sent_frames (snd (sendAudioData
      (new_stt\<lparr>isConnected := True, ws := Some \<lparr>url = ''wss://x'', readyState = OPEN\<rparr>\<rparr>)
      (Float32Array [Fin 1, Fin (- 1), NaN]))) =
     [InputAudioBufferAppend ''/38AgAAA'', InputAudioBufferCommit]"
proof -
  have e: "arrayBufferToBase64 (encode [Fin 1, Fin (- 1), NaN]) = ''/38AgAAA''"
    by code_simp
  show ?thesis
    using sendAudioData_append_then_commit[of "new_stt\<lparr>isConnected := True, ws := Some \<lparr>url = ''wss://x'', readyState = OPEN\<rparr>\<rparr>"
          "Float32Array [Fin 1, Fin (- 1), NaN]" "\<lparr>url = ''wss://x'', readyState = OPEN\<rparr>"
          "[Fin 1, Fin (- 1), NaN]", THEN conjunct2]
    by (simp add: e new_stt_def)
qed

lemma sendAudioData_signals:
  "error_signals (snd (sendAudioData s audioData)) = [] \<and>
   state_signals (snd (sendAudioData s audioData)) = []"
proof (cases "\<not> isConnected s \<or> ws s = None")
  case True
  then show ?thesis by (auto simp: sendAudioData_def)
next
  case False
  then obtain w where w: "ws s = Some w" and c: "isConnected s" by auto
  show ?thesis
  proof (cases audioData)
    case NotFloat32Array
    then show ?thesis using w c by (simp add: sendAudioData_def send_try_other)
  next
    case (Float32Array xs)
    then show ?thesis using w c validate_quiet(2,3)[of "Float32Array xs"]
      by (cases "readyState w")
         (simp_all add: sendAudioData_def send_try_Float32Array
            error_signals_append state_signals_append del: validateAudioData.simps)
  qed
qed

text \<open>
  C4. On a client that is not connected or holds no socket, \<^verbatim>\<open>sendAudioData\<close> does
  nothing: the client is unchanged and there is no effect at all, so no frame is sent.
  In every case the call returns the client unchanged and makes no error or
  connection-state signal, so a later call behaves as if the earlier one had not been
  made. When \<^verbatim>\<open>ws.send\<close> throws (the socket is still connecting), the error is logged,
  and the next call, once the socket is open, sends its two frames.
\<close>

theorem sendAudioData_drops_and_isolates:
  "(\<not> isConnected s \<or> ws s = None \<longrightarrow> sendAudioData s audioData = (s, [])) \<and>
   fst (sendAudioData s audioData) = s \<and>
   error_signals (snd (sendAudioData s audioData)) = [] \<and>
   state_signals (snd (sendAudioData s audioData)) = [] \<and>
   sendAudioData (fst (sendAudioData s audioData)) audioData' = sendAudioData s audioData' \<and>
   (isConnected s \<and> ws s = Some w \<and> readyState w = CONNECTING \<longrightarrow>
      sendAudioData s (Float32Array xs) =
        (s, snd (validateAudioData (Float32Array xs)) @
            [ConsoleError ''Failed to send audio data:'']) \<and>
      sent_frames (snd (sendAudioData
          ((fst (sendAudioData s (Float32Array xs)))\<lparr>ws := Some (w\<lparr>readyState := OPEN\<rparr>)\<rparr>)
          (Float32Array ys))) =
        [InputAudioBufferAppend (arrayBufferToBase64 (encode ys)), InputAudioBufferCommit])"
proof -
  have a: "\<not> isConnected s \<or> ws s = None \<longrightarrow> sendAudioData s audioData = (s, [])"
    by (simp add: sendAudioData_def)
  have b: "isConnected s \<and> ws s = Some w \<and> readyState w = CONNECTING \<longrightarrow>
      sendAudioData s (Float32Array xs) =
        (s, snd (validateAudioData (Float32Array xs)) @
            [ConsoleError ''Failed to send audio data:''])"
    by (simp add: sendAudioData_def send_try_Float32Array)
  have c: "isConnected s \<and> ws s = Some w \<longrightarrow>
      sent_frames (snd (sendAudioData (s\<lparr>ws := Some (w\<lparr>readyState := OPEN\<rparr>)\<rparr>) (Float32Array ys))) =
        [InputAudioBufferAppend (arrayBufferToBase64 (encode ys)), InputAudioBufferCommit]"
    using validate_quiet(1)[of "Float32Array ys"]
    by (simp add: sendAudioData_def send_try_Float32Array sent_frames_append
        del: validateAudioData.simps)
  show ?thesis
    using a b c sendAudioData_signals[of s audioData]
    by (simp add: fst_sendAudioData)
qed

theorem sendAudioData_drops_and_isolates_witness:
  "sendAudioData new_stt (Float32Array [Fin 1, Fin (- 1), NaN]) = (new_stt, []) \<and>
   sent_frames (snd (sendAudioData new_stt (Float32Array [Fin 1, Fin (- 1), NaN]))) = [] \<and>
   sendAudioData
     (new_stt\<lparr>isConnected := True, ws := Some \<lparr>url = ''wss://x'', readyState = CONNECTING\<rparr>\<rparr>)
     (Float32Array [Fin 1, Fin (- 1), NaN]) =
     (new_stt\<lparr>isConnected := True, ws := Some \<lparr>url = ''wss://x'', readyState = CONNECTING\<rparr>\<rparr>,
      [ConsoleError ''Failed to send audio data:'']) \<and>
   sent_frames (snd (sendAudioData
     (new_stt\<lparr>isConnected := True, ws := Some \<lparr>url = ''wss://x'', readyState = OPEN\<rparr>\<rparr>)
     (Float32Array [Fin 1, Fin (- 1), NaN]))) =
     [InputAudioBufferAppend ''/38AgAAA'', InputAudioBufferCommit]"
proof -
  let ?xs = "[Fin 1, Fin (- 1), NaN]"
  let ?w = "\<lparr>url = ''wss://x'', readyState = CONNECTING\<rparr>"
  let ?s = "new_stt\<lparr>isConnected := True, ws := Some ?w\<rparr>"
  have e: "arrayBufferToBase64 (encode ?xs) = ''/38AgAAA''"
    by code_simp
  have v: "validateAudioData (Float32Array ?xs) = (True, [])"
    by code_simp
  have d: "\<not> isConnected new_stt \<or> ws new_stt = None"
    by (simp add: new_stt_def)
  have k: "isConnected ?s \<and> ws ?s = Some ?w \<and> readyState ?w = CONNECTING"
    by simp
  note off = sendAudioData_drops_and_isolates[of new_stt "Float32Array ?xs", THEN conjunct1, THEN mp, OF d]
  note failing = sendAudioData_drops_and_isolates[of ?s _ _ ?w ?xs ?xs, THEN conjunct2, THEN conjunct2, THEN conjunct2,
      THEN conjunct2, THEN conjunct2, THEN mp, OF k]
  have f1: "sendAudioData ?s (Float32Array ?xs) = (?s, [ConsoleError ''Failed to send audio data:''])"
    using failing v by simp
  have f2: "sent_frames (snd (sendAudioData
     (new_stt\<lparr>isConnected := True, ws := Some \<lparr>url = ''wss://x'', readyState = OPEN\<rparr>\<rparr>)
     (Float32Array ?xs))) = [InputAudioBufferAppend ''/38AgAAA'', InputAudioBufferCommit]"
    using failing[THEN conjunct2] unfolding f1 e by simp
  show ?thesis using off f1 f2 by simp
qed

lemma connect_try_failure:
  "connect_try s fetched = (s', effects, Inl e) \<Longrightarrow>
   ws s' = ws s \<and> isConnected s' = isConnected s \<and> effects = []"
  by (auto simp: connect_try_def Let_def split: sum.splits if_splits)

lemma connect_try_isConnected:
  "connect_try s fetched = (s', effects, r) \<Longrightarrow>
   isConnected s' = isConnected s \<and> state_signals effects = []"
  by (auto simp: connect_try_def Let_def split: sum.splits if_splits)

lemma connect_never_connected:
  "isConnected (fst (connect s fetched)) = isConnected s \<and>
   state_signals (fst (snd (connect s fetched))) = []"
proof -
  obtain s' effects r where t: "connect_try s fetched = (s', effects, r)"
    by (cases "connect_try s fetched") auto
  from connect_try_isConnected[OF t] show ?thesis
    by (cases r) (simp_all add: connect_def t state_signals_append)
qed

lemma connect_failure_no_socket:
  assumes "snd (snd (connect s fetched)) = Inl e"
  shows "ws (fst (connect s fetched)) = ws s \<and>
         fst (snd (connect s fetched)) =
           [ConsoleError ''Failed to connect to OpenAI:'', OnError (message e)]"
proof -
  obtain s' effects r where t: "connect_try s fetched = (s', effects, r)"
    by (cases "connect_try s fetched") auto
  show ?thesis
  proof (cases r)
    case (Inl e')
    with assms t have "e' = e" by (simp add: connect_def)
    with connect_try_failure[of s fetched s' effects e] t Inl show ?thesis
      by (simp add: connect_def)
  next
    case (Inr u)
    with assms t show ?thesis by (simp add: connect_def)
  qed
qed

lemma token_error_string:
  "map_of (rev kvs) ''error'' = Some (JStr e) \<Longrightarrow>
   token_error \<lparr>status = st, body = Some (JObj kvs)\<rparr> =
     (if str_includes e ''API key'' \<or> str_includes e ''your_openai_api_key''
      then Error guidance
      else Error (''Failed to get OpenAI token: '' @ (if e = [] then ''Unknown error'' else e)))"
proof -
  assume m: "map_of (rev kvs) ''error'' = Some (JStr e)"
  show ?thesis
    by (cases "str_includes e ''API key''"; cases "str_includes e ''your_openai_api_key''";
        cases "e = []")
       (simp_all add: token_error_def response_json_def js_or_def m del: str_includes.simps)
qed

lemma connect_not_ok:
  "\<not> ok r \<Longrightarrow>
   connect s (Inr r) =
     (s, [ConsoleError ''Failed to connect to OpenAI:'', OnError (message (token_error r))],
      Inl (token_error r))"
  by (simp add: connect_def connect_try_def)

text \<open>
  C6 (as amended). When the token endpoint answers with a status outside 200 to 299 and a
  JSON object whose \<^verbatim>\<open>error\<close> is a string, \<^verbatim>\<open>connect\<close> fails: with the guidance text
  when the string contains \<^verbatim>\<open>API key\<close> or \<^verbatim>\<open>your_openai_api_key\<close>, and with
  \<^verbatim>\<open>Failed to get OpenAI token:\<close> followed by the string otherwise. \<^verbatim>\<open>connect\<close> never
  changes the connected flag and never signals a connection state, and when it fails it
  creates no socket and makes one error signal, the message of the error it throws.
\<close>

theorem connect_token_failure:
  "(\<not> (200 \<le> st \<and> st \<le> 299) \<and> map_of (rev kvs) ''error'' = Some (JStr e) \<longrightarrow>
      (str_includes e ''API key'' \<or> str_includes e ''your_openai_api_key'' \<longrightarrow>
         connect s (Inr \<lparr>status = st, body = Some (JObj kvs)\<rparr>) =
           (s, [ConsoleError ''Failed to connect to OpenAI:'', OnError guidance],
            Inl (Error guidance))) \<and>
      (\<not> str_includes e ''API key'' \<and> \<not> str_includes e ''your_openai_api_key'' \<and> e \<noteq> [] \<longrightarrow>
         connect s (Inr \<lparr>status = st, body = Some (JObj kvs)\<rparr>) =
           (s, [ConsoleError ''Failed to connect to OpenAI:'',
                OnError (''Failed to get OpenAI token: '' @ e)],
            Inl (Error (''Failed to get OpenAI token: '' @ e))))) \<and>
   isConnected (fst (connect s fetched)) = isConnected s \<and>
   state_signals (fst (snd (connect s fetched))) = [] \<and>
   (snd (snd (connect s fetched)) = Inl err \<longrightarrow>
      ws (fst (connect s fetched)) = ws s \<and>
      fst (snd (connect s fetched)) =
        [ConsoleError ''Failed to connect to OpenAI:'', OnError (message err)])"
proof -
  have a: "\<not> (200 \<le> st \<and> st \<le> 299) \<Longrightarrow> map_of (rev kvs) ''error'' = Some (JStr e) \<Longrightarrow>
     connect s (Inr \<lparr>status = st, body = Some (JObj kvs)\<rparr>) =
     (s, [ConsoleError ''Failed to connect to OpenAI:'',
          OnError (message (token_error \<lparr>status = st, body = Some (JObj kvs)\<rparr>))],
      Inl (token_error \<lparr>status = st, body = Some (JObj kvs)\<rparr>))"
    by (rule connect_not_ok) (simp add: ok_def)
  show ?thesis
    using connect_never_connected[of s fetched] connect_failure_no_socket[of s fetched err]
    by (auto simp: a token_error_string simp del: str_includes.simps)
qed

text \<open>
  C6 as it is stated fails: the body \<^verbatim>\<open>{"error":"missing OPENAI_API_KEY"}\<close> contains
  neither marker, so the error is the generic one and its text has no guidance.
\<close>

theorem connect_missing_key_body_is_generic:
  "connect new_stt
     (Inr \<lparr>status = 500, body = Some (JObj [(''error'', JStr ''missing OPENAI_API_KEY'')])\<rparr>) =
     (new_stt,
      [ConsoleError ''Failed to connect to OpenAI:'',
       OnError ''Failed to get OpenAI token: missing OPENAI_API_KEY''],
      Inl (Error ''Failed to get OpenAI token: missing OPENAI_API_KEY'')) \<and>
   ''Failed to get OpenAI token: missing OPENAI_API_KEY'' \<noteq> guidance \<and>
   \<not> str_includes ''Failed to get OpenAI token: missing OPENAI_API_KEY'' ''Please set'' \<and>
   \<not> str_includes ''Failed to get OpenAI token: missing OPENAI_API_KEY'' ''.env.local''"
  by code_simp

theorem connect_token_failure_witness:
  "connect new_stt
     (Inr \<lparr>status = 500, body = Some (JObj [(''error'', JStr ''missing OPENAI_API_KEY'')])\<rparr>) =
     (new_stt,
      [ConsoleError ''Failed to connect to OpenAI:'',
       OnError ''Failed to get OpenAI token: missing OPENAI_API_KEY''],
      Inl (Error ''Failed to get OpenAI token: missing OPENAI_API_KEY'')) \<and>
   connect new_stt (Inr key_not_configured_response) =
     (new_stt, [ConsoleError ''Failed to connect to OpenAI:'', OnError guidance],
      Inl (Error guidance)) \<and>
   isConnected (fst (connect new_stt (Inr key_not_configured_response))) = False \<and>
   ws (fst (connect new_stt (Inr key_not_configured_response))) = None"
proof -
  let ?generic = "[(''error'', JStr ''missing OPENAI_API_KEY'')]"
  let ?marked = "[(''error'', JStr ''OpenAI API key not configured'')]"
  have g: "\<not> (200 \<le> (500::nat) \<and> (500::nat) \<le> 299) \<and>
           map_of (rev ?generic) ''error'' = Some (JStr ''missing OPENAI_API_KEY'')"
    by simp
  have g': "\<not> str_includes ''missing OPENAI_API_KEY'' ''API key'' \<and>
            \<not> str_includes ''missing OPENAI_API_KEY'' ''your_openai_api_key'' \<and>
            ''missing OPENAI_API_KEY'' \<noteq> []"
    by code_simp
  have m: "\<not> (200 \<le> (500::nat) \<and> (500::nat) \<le> 299) \<and>
           map_of (rev ?marked) ''error'' = Some (JStr ''OpenAI API key not configured'')"
    by simp
  have m': "str_includes ''OpenAI API key not configured'' ''API key'' \<or>
            str_includes ''OpenAI API key not configured'' ''your_openai_api_key''"
    by code_simp
  note c1 = connect_token_failure[of 500 ?generic "''missing OPENAI_API_KEY''" new_stt,
      THEN conjunct1, THEN mp, OF g, THEN conjunct2, THEN mp, OF g']
  note c2 = connect_token_failure[of 500 ?marked "''OpenAI API key not configured''" new_stt,
      THEN conjunct1, THEN mp, OF m, THEN conjunct1, THEN mp, OF m']
  have c2': "connect new_stt (Inr key_not_configured_response) =
     (new_stt, [ConsoleError ''Failed to connect to OpenAI:'', OnError guidance],
      Inl (Error guidance))"
    using c2 by (simp add: key_not_configured_response_def)
  show ?thesis
    using c1 unfolding c2' by (simp add: new_stt_def)
qed

end
